theory Spec2Isabelle
  imports Complex_Main "HOL-Library.AList" "HOL-Library.Multiset"
begin

section \<open>Python values, errors and namespaces\<close>

text \<open>
  The package module \<^verbatim>\<open>fckprint/__init__.py\<close> consists of import statements,
  assignments and one \<^verbatim>\<open>del\<close>. Its effect is the module namespace it leaves behind.
  A namespace is an association list in insertion order, as a Python \<^verbatim>\<open>dict\<close> is;
  every statement that can raise returns a sum, with the exception on the left. The last
  two errors are the engine's own (a value that cannot be rendered, a destination that
  rejects a write).
\<close>

datatype py_error =
    ImportError string
  | NameError string
  | ValueError string
  | TypeError string
  | RenderError string
  | SinkError string

datatype pyval =
    Module string
  | Obj string string
  | Str string
  | IntVal int
  | StrList "string list"
  | NamedTupleClass string "string list"
  | NamedTuple string "(string \<times> pyval) list"
  | Result pyval "pyval list"

type_synonym namespace = "(string \<times> pyval) list"

definition then_do :: "'e + 'a \<Rightarrow> ('a \<Rightarrow> 'e + 'b) \<Rightarrow> 'e + 'b" where
  "then_do r f = (case r of Inl e \<Rightarrow> Inl e | Inr x \<Rightarrow> f x)"

definition bind_name :: "string \<Rightarrow> pyval \<Rightarrow> namespace \<Rightarrow> namespace" where
  "bind_name n v ns = AList.update n v ns"


definition lookup :: "namespace \<Rightarrow> string \<Rightarrow> py_error + pyval" where
  "lookup ns n = (case map_of ns n of None \<Rightarrow> Inl (NameError n) | Some v \<Rightarrow> Inr v)"

text \<open>\<^verbatim>\<open>del a, b\<close> deletes left to right and raises NameError at the first unbound name.\<close>

fun del_names :: "string list \<Rightarrow> namespace \<Rightarrow> py_error + namespace" where
  "del_names [] ns = Inr ns"
| "del_names (n # rest) ns =
     (case map_of ns n of
        None \<Rightarrow> Inl (NameError n)
      | Some _ \<Rightarrow> del_names rest (AList.delete n ns))"

subsection \<open>The sibling modules\<close>

text \<open>
  The modules \<^verbatim>\<open>tracer\<close>, \<^verbatim>\<open>variables\<close> and \<^verbatim>\<open>decorators\<close> that the
  package imports from are a parameter: for each module that can be imported, the names
  it defines with their values. Loading a submodule places a binding to the submodule
  object in the namespace of the parent package (Python language reference, 5.4.2), so
  a relative import binds the submodule's own name before the names it asks for. What
  the sibling modules import in their turn lies outside these files.
\<close>

type_synonym package_files = "(string \<times> namespace) list"

definition submodule :: "string \<Rightarrow> pyval" where
  "submodule m = Module (''fckprint.'' @ m)"

text \<open>\<^verbatim>\<open>from .m import a as b, ...\<close>: each pair is (name in the module, name bound).\<close>

fun import_names :: "namespace \<Rightarrow> (string \<times> string) list \<Rightarrow> namespace \<Rightarrow> py_error + namespace" where
  "import_names ma [] ns = Inr ns"
| "import_names ma ((n, as_n) # rest) ns =
     (case map_of ma n of
        None \<Rightarrow> Inl (ImportError n)
      | Some v \<Rightarrow> import_names ma rest (bind_name as_n v ns))"

definition import_from ::
  "package_files \<Rightarrow> string \<Rightarrow> (string \<times> string) list \<Rightarrow> namespace \<Rightarrow> py_error + namespace" where
  "import_from pkg m wanted ns =
     (case map_of pkg m of
        None \<Rightarrow> Inl (ImportError m)
      | Some ma \<Rightarrow> import_names ma wanted (bind_name m (submodule m) ns))"

text \<open>\<^verbatim>\<open>import collections\<close>: the standard library module, always importable.\<close>

definition import_module :: "string \<Rightarrow> namespace \<Rightarrow> namespace" where
  "import_module m ns = bind_name m (Module m) ns"

subsection \<open>The builtins the version lines use\<close>

text \<open>\<^verbatim>\<open>s.split(c)\<close> for a one-character separator: every occurrence splits.\<close>

fun split_on :: "char \<Rightarrow> string \<Rightarrow> string list" where
  "split_on c [] = [[]]"
| "split_on c (x # xs) =
     (if x = c then [] # split_on c xs
      else (case split_on c xs of [] \<Rightarrow> [[x]] | w # ws \<Rightarrow> (x # w) # ws))"

text \<open>
  \<^verbatim>\<open>int(s)\<close> on an ASCII string, base ten: surrounding whitespace is stripped, one sign
  is allowed, and single underscores may stand between digits. Anything else raises
  ValueError.
\<close>

definition is_space :: "char \<Rightarrow> bool" where
  "is_space c = (c \<in> set [CHR 0x20, CHR 0x09, CHR 0x0A, CHR 0x0B, CHR 0x0C, CHR 0x0D])"

definition strip :: "string \<Rightarrow> string" where
  "strip s = rev (dropWhile is_space (rev (dropWhile is_space s)))"

definition digit_val :: "char \<Rightarrow> nat option" where
  "digit_val c = (let n = (of_char c :: nat) in if 48 \<le> n \<and> n \<le> 57 then Some (n - 48) else None)"

fun py_digits :: "nat \<Rightarrow> string \<Rightarrow> nat option" where
  "py_digits acc [] = Some acc"
| "py_digits acc [c] = (case digit_val c of None \<Rightarrow> None | Some v \<Rightarrow> Some (acc * 10 + v))"
| "py_digits acc (c # d # ds) =
     (if c = CHR ''_'' then
        (case digit_val d of None \<Rightarrow> None | Some v \<Rightarrow> py_digits (acc * 10 + v) ds)
      else
        (case digit_val c of None \<Rightarrow> None | Some v \<Rightarrow> py_digits (acc * 10 + v) (d # ds)))"

definition py_unsigned :: "string \<Rightarrow> nat option" where
  "py_unsigned s =
     (case s of
        [] \<Rightarrow> None
      | c # cs \<Rightarrow> (case digit_val c of None \<Rightarrow> None | Some v \<Rightarrow> py_digits v cs))"

definition py_int :: "string \<Rightarrow> py_error + int" where
  "py_int s =
     (let t = strip s;
          neg = (t \<noteq> [] \<and> hd t = CHR ''-'');
          body = (if t \<noteq> [] \<and> (hd t = CHR ''-'' \<or> hd t = CHR ''+'') then tl t else t)
      in case py_unsigned body of
           None \<Rightarrow> Inl (ValueError s)
         | Some n \<Rightarrow> Inr (if neg then - int n else int n))"

text \<open>\<^verbatim>\<open>map(int, xs)\<close>, consumed by argument unpacking: the first failure raises.\<close>

fun map_int :: "string list \<Rightarrow> py_error + pyval list" where
  "map_int [] = Inr []"
| "map_int (s # ss) =
     (case py_int s of
        Inl e \<Rightarrow> Inl e
      | Inr i \<Rightarrow> (case map_int ss of Inl e \<Rightarrow> Inl e | Inr vs \<Rightarrow> Inr (IntVal i # vs)))"

text \<open>
  \<^verbatim>\<open>collections.namedtuple(typename, field_names)\<close> makes a class; calling the class
  with positional arguments raises TypeError unless there is one argument per field.
  An object that a sibling module defines is opaque: a call of it is kept as the
  symbolic value \<open>Result\<close>. Modules, strings, integers, lists and tuples are not
  callable.
\<close>

definition namedtuple :: "string \<Rightarrow> string list \<Rightarrow> pyval" where
  "namedtuple typename field_names = NamedTupleClass typename field_names"

definition call_positional :: "pyval \<Rightarrow> pyval list \<Rightarrow> py_error + pyval" where
  "call_positional f args =
     (case f of
        NamedTupleClass tn fs \<Rightarrow>
          (if length args = length fs then Inr (NamedTuple tn (zip fs args))
           else Inl (TypeError tn))
      | Obj m n \<Rightarrow> Inr (Result (Obj m n) args)
      | Module m \<Rightarrow> Inl (TypeError ''module object is not callable'')
      | _ \<Rightarrow> Inl (TypeError ''object is not callable''))"


definition str_split :: "pyval \<Rightarrow> char \<Rightarrow> py_error + string list" where
  "str_split v c = (case v of Str s \<Rightarrow> Inr (split_on c s) | _ \<Rightarrow> Inl (TypeError ''split''))"

section \<open>The package module \<^verbatim>\<open>fckprint/__init__.py\<close>\<close>

text \<open>Line 31: \<^verbatim>\<open>from .tracer import Tracer as snoop\<close>.\<close>

definition tracer_imports :: "(string \<times> string) list" where
  "tracer_imports = [(''Tracer'', ''snoop'')]"

text \<open>Line 32: \<^verbatim>\<open>from .variables import Attrs, Exploding, Indices, Keys\<close>.\<close>

definition variables_imports :: "(string \<times> string) list" where
  "variables_imports =
     [(''Attrs'', ''Attrs''), (''Exploding'', ''Exploding''),
      (''Indices'', ''Indices''), (''Keys'', ''Keys'')]"

text \<open>Lines 35 to 67: \<^verbatim>\<open>from .decorators import (...)\<close>, fourteen names.\<close>

definition decorators_imports :: "(string \<times> string) list" where
  "decorators_imports =
     [(''performance_monitor'', ''performance_monitor''),
      (''resource_monitor'', ''resource_monitor''),
      (''error_tracker'', ''error_tracker''),
      (''circuit_breaker'', ''circuit_breaker''),
      (''cache_monitor'', ''cache_monitor''),
      (''thread_monitor'', ''thread_monitor''),
      (''validate_data'', ''validate_data''),
      (''security_monitor'', ''security_monitor''),
      (''call_flow_tracer'', ''call_flow_tracer''),
      (''db_monitor'', ''db_monitor''),
      (''rate_limiter'', ''rate_limiter''),
      (''feature_flag'', ''feature_flag''),
      (''audit_trail'', ''audit_trail''),
      (''production_monitor'', ''production_monitor'')]"

text \<open>Lines 78 to 117: the list assigned to \<^verbatim>\<open>__all__\<close>.\<close>

definition all_names :: "string list" where
  "all_names =
     [''snoop'', ''Attrs'', ''Exploding'', ''Indices'', ''Keys'',
      ''performance_monitor'', ''resource_monitor'',
      ''error_tracker'', ''circuit_breaker'',
      ''cache_monitor'',
      ''thread_monitor'',
      ''validate_data'', ''security_monitor'',
      ''call_flow_tracer'',
      ''db_monitor'', ''rate_limiter'',
      ''feature_flag'', ''audit_trail'',
      ''production_monitor'']"

text \<open>
  The module body, statement by statement, from the namespace \<open>ns0\<close> that the import
  machinery hands to it (the module's dunder attributes). The docstring only sets the
  value of \<^verbatim>\<open>__doc__\<close>, which no statement reads.
\<close>

definition fckprint_init :: "package_files \<Rightarrow> namespace \<Rightarrow> py_error + namespace" where
  "fckprint_init pkg ns0 =
     then_do (import_from pkg ''tracer'' tracer_imports ns0) (\<lambda>ns1.
     then_do (import_from pkg ''variables'' variables_imports ns1) (\<lambda>ns2.
     then_do (import_from pkg ''decorators'' decorators_imports ns2) (\<lambda>ns3.
     let ns4 = import_module ''collections'' ns3;
         ns5 = bind_name ''__VersionInfo''
                 (namedtuple ''VersionInfo'' [''major'', ''minor'', ''micro'']) ns4;
         ns6 = bind_name ''__version__'' (Str ''1.1.0'') ns5
     in
     then_do (lookup ns6 ''__VersionInfo'') (\<lambda>cls.
     then_do (lookup ns6 ''__version__'') (\<lambda>ver.
     then_do (str_split ver CHR ''.'') (\<lambda>parts.
     then_do (map_int parts) (\<lambda>args.
     then_do (call_positional cls args) (\<lambda>info.
     let ns7 = bind_name ''__version_info__'' info ns6;
         ns8 = bind_name ''__all__'' (StrList all_names) ns7
     in del_names [''collections'', ''__VersionInfo''] ns8))))))))"


text \<open>
  \<^verbatim>\<open>from fckprint import n\<close>, as line 5 of \<^verbatim>\<open>tests/show_demo.py\<close> does: the
  attribute of the package if there is one, otherwise the submodule of that name if the
  package has such a file, otherwise ImportError.
\<close>

definition from_fckprint_import :: "namespace \<Rightarrow> string list \<Rightarrow> string \<Rightarrow> py_error + pyval" where
  "from_fckprint_import ns files n =
     (case map_of ns n of
        Some v \<Rightarrow> Inr v
      | None \<Rightarrow> (if n \<in> set files then Inr (submodule n) else Inl (ImportError n)))"

text \<open>
  The namespace that lines 69 to 119 leave behind when they start from \<open>ns3\<close>, the
  namespace after the three relative imports (see \<open>fckprint_init_steps\<close> below).
\<close>

definition after_version_lines :: "namespace \<Rightarrow> namespace" where
  "after_version_lines ns3 =
     AList.delete ''__VersionInfo'' (AList.delete ''collections''
       (bind_name ''__all__'' (StrList all_names)
         (bind_name ''__version_info__''
            (NamedTuple ''VersionInfo''
               [(''major'', IntVal 1), (''minor'', IntVal 1), (''micro'', IntVal 0)])
            (bind_name ''__version__'' (Str ''1.1.0'')
              (bind_name ''__VersionInfo''
                 (NamedTupleClass ''VersionInfo'' [''major'', ''minor'', ''micro''])
                (bind_name ''collections'' (Module ''collections'') ns3))))))"

subsection \<open>A concrete package\<close>

text \<open>
  A package whose three sibling modules define exactly the names that are imported from
  them, each as an object of its own, and the namespace of a freshly created module.
\<close>

definition module_defining :: "string \<Rightarrow> string list \<Rightarrow> namespace" where
  "module_defining m ns = map (\<lambda>n. (n, Obj m n)) ns"

definition sample_pkg :: package_files where
  "sample_pkg =
     [(''tracer'', module_defining ''tracer'' (map fst tracer_imports)),
      (''variables'', module_defining ''variables'' (map fst variables_imports)),
      (''decorators'', module_defining ''decorators'' (map fst decorators_imports))]"

definition fresh_module :: namespace where
  "fresh_module = [(''__name__'', Str ''fckprint'')]"

section \<open>The tracing engine\<close>

text \<open>
  The module \<^verbatim>\<open>tracer\<close> is not among the source files: only the import of line 31
  is. The definitions of this section follow the specification's data model (section 3)
  and component design (section 4).
\<close>

subsection \<open>Data model\<close>

text \<open>
  Modelled from the spec: VariableSnapshot of the absent tracer module, a mapping from
  variable name to rendered value in insertion order.
\<close>

type_synonym snapshot = "(string \<times> string) list"

text \<open>Modelled from the spec: the change kinds of the Snapshot Differ (absent tracer module).\<close>

datatype change_kind = ADDED | CHANGED | UNCHANGED | REMOVED

text \<open>Modelled from the spec: the four kinds of TraceEvent (absent tracer module).\<close>

datatype event_kind = CALL | LINE | RETURN | EXCEPTION

text \<open>
  Modelled from the spec: TraceEvent of the absent tracer module. A change is
  (name, kind, rendered old value, rendered new value).
\<close>

type_synonym change = "string \<times> change_kind \<times> string \<times> string"

record trace_event =
  ev_call_id :: nat
  ev_location :: nat
  ev_kind :: event_kind
  ev_changes :: "change list"
  ev_depth :: nat

text \<open>
  Modelled from the spec: the options of the decoration interface (section 6) of the
  absent tracer module that the engine below reads: the depth bound and the suppression
  of UNCHANGED entries.
\<close>

record config =
  max_depth :: nat
  variable_suppression :: bool

text \<open>
  Modelled from the spec: an exception raised by the instrumented callable
  (TracedException, section 7), by type name and message; the absent tracer module only
  observes it.
\<close>

datatype exn = Exn string string

text \<open>
  Modelled from the spec: the rendering of an exception in an EXCEPTION event of the
  absent tracer module, its type and message (section 4.4).
\<close>

definition render_exn :: "exn \<Rightarrow> string" where
  "render_exn e = (case e of Exn t m \<Rightarrow> t @ '': '' @ m)"

subsection \<open>Snapshot Differ\<close>

text \<open>
  Modelled from the spec: diff of the absent tracer module (section 4.2). Equality is
  decided on the rendered values; the order is the insertion order of the current
  snapshot, followed by the names that disappeared.
\<close>

definition diff :: "snapshot option \<Rightarrow> snapshot \<Rightarrow> change list" where
  "diff previous current =
     (let prev = (case previous of None \<Rightarrow> [] | Some s \<Rightarrow> s) in
      map (\<lambda>(n, v).
             case map_of prev n of
               None \<Rightarrow> (n, ADDED, [], v)
             | Some old \<Rightarrow> (if old = v then (n, UNCHANGED, old, v) else (n, CHANGED, old, v)))
          current
      @ map (\<lambda>(n, old). (n, REMOVED, old, []))
          (filter (\<lambda>(n, old). map_of current n = None) prev))"

text \<open>
  Modelled from the spec: the default report policy of the absent tracer module, which
  leaves UNCHANGED entries out unless suppression is disabled.
\<close>

definition reported :: "config \<Rightarrow> change list \<Rightarrow> change list" where
  "reported cfg cs =
     (if variable_suppression cfg then filter (\<lambda>(n, k, old, new). k \<noteq> UNCHANGED) cs else cs)"

subsection \<open>Formatter/Sink\<close>

text \<open>
  Modelled from the spec: the pluggable parts of the Formatter/Sink of the absent tracer
  module (section 4.5). Rendering an event and appending a line to the destination may
  each fail.
\<close>

record 'k formatter =
  render_event :: "trace_event \<Rightarrow> py_error + string"
  append :: "string \<Rightarrow> 'k \<Rightarrow> py_error + 'k"

text \<open>
  Modelled from the spec: the state of the Formatter/Sink of the absent tracer module,
  the destination, and the fallback channel with what was reported through it.
\<close>

record 'k sink_state =
  dest :: 'k
  fallback_log :: "py_error list"
  fallback_used :: bool

text \<open>
  Modelled from the spec: the Formatter/Sink of the absent tracer module before its first
  event, with nothing reported through the fallback channel.
\<close>

definition new_sink :: "'k \<Rightarrow> 'k sink_state" where
  "new_sink d = \<lparr>dest = d, fallback_log = [], fallback_used = False\<rparr>"

text \<open>
  Modelled from the spec: the body that emit of the absent tracer module guards, render
  then append; either step may raise.
\<close>

definition write_event ::
  "'k formatter \<Rightarrow> trace_event \<Rightarrow> 'k sink_state \<Rightarrow> py_error + 'k sink_state" where
  "write_event fs ev st =
     then_do (render_event fs ev) (\<lambda>line.
     then_do (append fs line (dest st)) (\<lambda>d.
     Inr (st\<lparr>dest := d\<rparr>)))"

text \<open>
  Modelled from the spec: the fallback report of the absent tracer module, made for the
  first failure only.
\<close>

definition report_once :: "py_error \<Rightarrow> 'k sink_state \<Rightarrow> 'k sink_state" where
  "report_once e st =
     (if fallback_used st then st
      else st\<lparr>fallback_log := fallback_log st @ [e], fallback_used := True\<rparr>)"

text \<open>
  Modelled from the spec: emit of the absent tracer module (section 4.5). A formatting or
  write failure is caught, reported once through the fallback channel and otherwise
  dropped.
\<close>

definition emit :: "'k formatter \<Rightarrow> trace_event \<Rightarrow> 'k sink_state \<Rightarrow> py_error + 'k sink_state" where
  "emit fs ev st =
     (case write_event fs ev st of
        Inr st' \<Rightarrow> Inr st'
      | Inl e \<Rightarrow> Inr (report_once e st))"


subsection \<open>Call-Stack Tracker\<close>

text \<open>
  Modelled from the spec: CallStackEntry of the absent tracer module, with the depth and
  the most recent snapshot of one active invocation.
\<close>

record stack_entry =
  entry_call_id :: nat
  entry_depth :: nat
  entry_snapshot :: "snapshot option"

text \<open>
  Modelled from the spec: the state of the engine of the absent tracer module. There is
  one stack per execution context; \<open>pushed\<close> and \<open>popped\<close> record the call ids in the
  order they were pushed and popped, and \<open>emitted\<close> the events handed to the
  Formatter/Sink.
\<close>

record 'k engine =
  stacks :: "nat \<Rightarrow> stack_entry list"
  next_call_id :: nat
  pushed :: "nat list"
  popped :: "nat list"
  sink :: "'k sink_state"
  emitted :: "trace_event list"

text \<open>
  Modelled from the spec: the engine of the absent tracer module before its first call,
  with every stack empty.
\<close>

definition new_engine :: "'k \<Rightarrow> 'k engine" where
  "new_engine d =
     \<lparr>stacks = (\<lambda>c. []), next_call_id = 0, pushed = [], popped = [],
      sink = new_sink d, emitted = []\<rparr>"

text \<open>
  Modelled from the spec: enter of the absent tracer module (section 4.3). It pushes an
  entry for a fresh call id and returns the id and the depth, 1 for an outermost call.
\<close>

definition enter :: "nat \<Rightarrow> 'k engine \<Rightarrow> nat \<times> nat \<times> 'k engine" where
  "enter ctx eng =
     (let st = stacks eng ctx;
          cid = next_call_id eng;
          d = Suc (length st);
          e = \<lparr>entry_call_id = cid, entry_depth = d, entry_snapshot = None\<rparr>
      in (cid, d,
          eng\<lparr>stacks := (stacks eng)(ctx := e # st),
              next_call_id := Suc cid,
              pushed := pushed eng @ [cid]\<rparr>))"

text \<open>
  Modelled from the spec: exit of the absent tracer module (section 4.3), which pops the
  top entry of the context's stack.
\<close>

definition exit_call :: "nat \<Rightarrow> 'k engine \<Rightarrow> 'k engine" where
  "exit_call ctx eng =
     (case stacks eng ctx of
        [] \<Rightarrow> eng
      | e # rest \<Rightarrow>
          eng\<lparr>stacks := (stacks eng)(ctx := rest),
              popped := popped eng @ [entry_call_id e]\<rparr>)"

text \<open>Modelled from the spec: currentSnapshot of the absent tracer module (section 4.3).\<close>

definition current_snapshot :: "nat \<Rightarrow> 'k engine \<Rightarrow> snapshot option" where
  "current_snapshot ctx eng =
     (case stacks eng ctx of [] \<Rightarrow> None | e # rest \<Rightarrow> entry_snapshot e)"

text \<open>Modelled from the spec: recordSnapshot of the absent tracer module (section 4.3).\<close>

definition record_snapshot :: "nat \<Rightarrow> snapshot \<Rightarrow> 'k engine \<Rightarrow> 'k engine" where
  "record_snapshot ctx s eng =
     (case stacks eng ctx of
        [] \<Rightarrow> eng
      | e # rest \<Rightarrow> eng\<lparr>stacks := (stacks eng)(ctx := e\<lparr>entry_snapshot := Some s\<rparr> # rest)\<rparr>)"

subsection \<open>Event Emitter\<close>

text \<open>
  Modelled from the spec: the observed computation (section 9), a totally ordered
  sequence of (location, scope snapshot) pairs for one call of the instrumented callable.
  A step is a statement boundary, or the call of another traced callable (whether the
  caller handles an exception it raises, the line of its definition, its bound
  parameters, its steps, and the outcome of its body when every step completes).
\<close>

datatype 'v step =
    Stmt nat snapshot
  | Invoke bool nat snapshot "'v step list" "exn + 'v"

text \<open>
  Modelled from the spec: the instrumented callable run with no instrumentation
  present. An exception of a nested call that the caller does not handle ends the
  caller's steps.
\<close>

fun plain_call :: "'v step list \<Rightarrow> exn + 'v \<Rightarrow> exn + 'v"
  and plain_steps :: "'v step list \<Rightarrow> exn option" where
  "plain_call steps out = (case plain_steps steps of Some e \<Rightarrow> Inl e | None \<Rightarrow> out)"
| "plain_steps [] = None"
| "plain_steps (Stmt l s # rest) = plain_steps rest"
| "plain_steps (Invoke handled l p body out # rest) =
     (case plain_call body out of
        Inl e \<Rightarrow> (if handled then plain_steps rest else Some e)
      | Inr v \<Rightarrow> plain_steps rest)"

text \<open>
  Modelled from the spec: handing one event to the Formatter/Sink of the absent tracer
  module.
\<close>

definition emit_event :: "'k formatter \<Rightarrow> trace_event \<Rightarrow> 'k engine \<Rightarrow> py_error + 'k engine" where
  "emit_event fs ev eng =
     then_do (emit fs ev (sink eng)) (\<lambda>s.
     Inr (eng\<lparr>sink := s, emitted := emitted eng @ [ev]\<rparr>))"

text \<open>
  Modelled from the spec: the CALL event of the absent tracer module (section 4.4), the
  bound parameters diffed against an absent snapshot.
\<close>

definition call_event :: "config \<Rightarrow> nat \<Rightarrow> nat \<Rightarrow> nat \<Rightarrow> snapshot \<Rightarrow> trace_event" where
  "call_event cfg cid d l params =
     \<lparr>ev_call_id = cid, ev_location = l, ev_kind = CALL,
      ev_changes = reported cfg (diff None params), ev_depth = d\<rparr>"

text \<open>
  Modelled from the spec: the LINE event of the absent tracer module (section 4.4), the
  changes since the stored snapshot.
\<close>

definition line_event ::
  "config \<Rightarrow> nat \<Rightarrow> nat \<Rightarrow> nat \<Rightarrow> snapshot option \<Rightarrow> snapshot \<Rightarrow> trace_event" where
  "line_event cfg cid d l previous current =
     \<lparr>ev_call_id = cid, ev_location = l, ev_kind = LINE,
      ev_changes = reported cfg (diff previous current), ev_depth = d\<rparr>"

text \<open>
  Modelled from the spec: the EXCEPTION event of the absent tracer module (section 4.4),
  carrying the rendered exception.
\<close>

definition exception_event :: "nat \<Rightarrow> nat \<Rightarrow> nat \<Rightarrow> exn \<Rightarrow> trace_event" where
  "exception_event cid d l e =
     \<lparr>ev_call_id = cid, ev_location = l, ev_kind = EXCEPTION,
      ev_changes = [(''exception'', ADDED, [], render_exn e)], ev_depth = d\<rparr>"

text \<open>
  Modelled from the spec: the snapshot of the absent tracer module that adds the return
  value or the exception as a pseudo-variable (section 4.4, EXITED).
\<close>

definition final_snapshot :: "('v \<Rightarrow> string) \<Rightarrow> snapshot option \<Rightarrow> exn + 'v \<Rightarrow> snapshot" where
  "final_snapshot render prev result =
     (let base = (case prev of None \<Rightarrow> [] | Some s \<Rightarrow> s) in
      case result of
        Inl e \<Rightarrow> AList.update ''exception'' (render_exn e) base
      | Inr v \<Rightarrow> AList.update ''returnValue'' (render v) base)"

text \<open>
  Modelled from the spec: the RETURN event of the absent tracer module (section 4.4), the
  diff between the last snapshot and the final one.
\<close>

definition return_event ::
  "config \<Rightarrow> ('v \<Rightarrow> string) \<Rightarrow> nat \<Rightarrow> nat \<Rightarrow> nat \<Rightarrow> snapshot option \<Rightarrow> exn + 'v \<Rightarrow> trace_event" where
  "return_event cfg render cid d l prev result =
     \<lparr>ev_call_id = cid, ev_location = l, ev_kind = RETURN,
      ev_changes = reported cfg (diff prev (final_snapshot render prev result)),
      ev_depth = d\<rparr>"

text \<open>
  Modelled from the spec: the Event Emitter of the absent tracer module (section 4.4),
  for one traced call in execution context \<open>ctx\<close>. ENTERED pushes a CallStackEntry and
  emits CALL; each statement boundary emits LINE unless the call lies beyond the
  configured depth; RAISING emits EXCEPTION; EXITED emits RETURN and pops the entry. The
  outcome handed back to the caller is the one the callable produced. An error of the
  engine itself would be the left summand of the result.
\<close>

fun run_call ::
  "'k formatter \<Rightarrow> config \<Rightarrow> ('v \<Rightarrow> string) \<Rightarrow> nat \<Rightarrow> nat \<Rightarrow> snapshot \<Rightarrow> 'v step list
     \<Rightarrow> exn + 'v \<Rightarrow> 'k engine \<Rightarrow> py_error + ((exn + 'v) \<times> 'k engine)"
  and run_steps ::
  "'k formatter \<Rightarrow> config \<Rightarrow> ('v \<Rightarrow> string) \<Rightarrow> nat \<Rightarrow> nat \<Rightarrow> nat \<Rightarrow> 'v step list
     \<Rightarrow> 'k engine \<Rightarrow> py_error + (exn option \<times> 'k engine)" where
  "run_call fs cfg render ctx l params steps out eng =
     (case enter ctx eng of (cid, d, eng1) \<Rightarrow>
      then_do (emit_event fs (call_event cfg cid d l params) eng1) (\<lambda>eng2.
      then_do (run_steps fs cfg render ctx cid d steps (record_snapshot ctx params eng2))
        (\<lambda>(raised, eng3).
      let result = (case raised of Some e \<Rightarrow> Inl e | None \<Rightarrow> out) in
      then_do (case result of
                 Inl e \<Rightarrow> emit_event fs (exception_event cid d l e) eng3
               | Inr v \<Rightarrow> Inr eng3) (\<lambda>eng4.
      then_do (emit_event fs
                 (return_event cfg render cid d l (current_snapshot ctx eng4) result) eng4)
        (\<lambda>eng5.
      Inr (result, exit_call ctx eng5))))))"
| "run_steps fs cfg render ctx cid d [] eng = Inr (None, eng)"
| "run_steps fs cfg render ctx cid d (Stmt l s # rest) eng =
     (if d \<le> max_depth cfg then
        then_do (emit_event fs (line_event cfg cid d l (current_snapshot ctx eng) s) eng)
          (\<lambda>eng1.
        run_steps fs cfg render ctx cid d rest (record_snapshot ctx s eng1))
      else run_steps fs cfg render ctx cid d rest eng)"
| "run_steps fs cfg render ctx cid d (Invoke handled l p body out # rest) eng =
     then_do (run_call fs cfg render ctx l p body out eng) (\<lambda>(r, eng1).
     case r of
       Inl e \<Rightarrow> (if handled then run_steps fs cfg render ctx cid d rest eng1
                 else Inr (Some e, eng1))
     | Inr v \<Rightarrow> run_steps fs cfg render ctx cid d rest eng1)"

subsection \<open>Bookkeeping between two states of the engine\<close>

text \<open>
  Two predicates for the proofs below. Between \<open>eng\<close> and \<open>eng'\<close> the call ids
  handed out are the pushes, in order, every one of them was popped once, and the events
  of \<open>eng\<close> are a prefix of those of \<open>eng'\<close>.
\<close>

definition balanced :: "'k engine \<Rightarrow> 'k engine \<Rightarrow> bool" where
  "balanced eng eng' =
     (next_call_id eng \<le> next_call_id eng' \<and>
      pushed eng' = pushed eng @ [next_call_id eng ..< next_call_id eng'] \<and>
      (\<exists>pops. popped eng' = popped eng @ pops \<and>
              mset pops = mset [next_call_id eng ..< next_call_id eng']) \<and>
      (\<exists>evs. emitted eng' = emitted eng @ evs))"

text \<open>
  The stacks of the other contexts are the same, and the stack of \<open>ctx\<close> differs at
  most in the snapshot of its top entry.
\<close>

definition top_kept :: "nat \<Rightarrow> 'k engine \<Rightarrow> 'k engine \<Rightarrow> bool" where
  "top_kept ctx eng eng' =
     ((\<forall>c. c \<noteq> ctx \<longrightarrow> stacks eng' c = stacks eng c) \<and>
      map entry_call_id (stacks eng' ctx) = map entry_call_id (stacks eng ctx) \<and>
      tl (stacks eng' ctx) = tl (stacks eng ctx))"

subsection \<open>The scenario of the division by zero\<close>

text \<open>
  Modelled from the spec: the callable \<^verbatim>\<open>g(x) { return 10 / x }\<close> of the scenario
  of section 8, which is in no source file. The quotient is the exact one, and a zero
  divisor raises.
\<close>

definition g :: "int \<Rightarrow> exn + real" where
  "g x = (if x = 0 then Inl (Exn ''ZeroDivisionError'' ''division by zero'')
          else Inr (10 / real_of_int x))"

text \<open>The call \<^verbatim>\<open>g(0)\<close> as the engine observes it: the parameter, then the one line.\<close>

definition g_zero_params :: snapshot where
  "g_zero_params = [(''x'', ''0'')]"

definition g_zero_steps :: "real step list" where
  "g_zero_steps = [Stmt 2 g_zero_params]"

text \<open>
  An exception injected below the traced callable: a call whose second step is the call
  \<^verbatim>\<open>g(0)\<close>, which it does not handle, so that its third step is never reached.
\<close>

definition nested_steps :: "real step list" where
  "nested_steps =
     [Stmt 11 [(''a'', ''1'')],
      Invoke False 1 g_zero_params g_zero_steps (g 0),
      Stmt 12 [(''a'', ''1''), (''b'', ''2'')]]"

text \<open>
  A configuration, a rendering of return values, and a formatter whose rendering always
  fails, for which every event goes the way of the fallback channel.
\<close>

definition sample_config :: config where
  "sample_config = \<lparr>max_depth = 1, variable_suppression = True\<rparr>"

definition render_none :: "real \<Rightarrow> string" where
  "render_none v = []"

definition failing_formatter :: "string list formatter" where
  "failing_formatter =
     \<lparr>render_event = (\<lambda>ev. Inl (RenderError [])), append = (\<lambda>line d. Inl (SinkError line))\<rparr>"

text \<open>The engine before any call, writing to an empty list of lines.\<close>

definition start_engine :: "string list engine" where
  "start_engine = new_engine []"

section \<open>Properties of the package module\<close>

subsection \<open>Namespaces\<close>

lemma map_of_bind_name: "map_of (bind_name n v ns) k = (if k = n then Some v else map_of ns k)"
  by (simp add: bind_name_def update_conv')


lemma import_names_other:
  "import_names ma wanted ns = Inr ns' \<Longrightarrow> k \<notin> snd ` set wanted \<Longrightarrow> map_of ns' k = map_of ns k"
  by (induction ma wanted ns rule: import_names.induct)
     (auto simp: map_of_bind_name split: option.splits)



lemma import_from_unwanted:
  assumes "import_from pkg m wanted ns = Inr ns'" and k: "k \<notin> snd ` set wanted"
  shows "map_of ns' k = (if k = m then Some (submodule m) else map_of ns k)"
proof (cases "map_of pkg m")
  case None
  with assms(1) show ?thesis
    by (simp add: import_from_def)
next
  case (Some ma)
  with assms(1)
  have "import_names ma wanted (bind_name m (submodule m) ns) = Inr ns'"
    by (simp add: import_from_def)
  from import_names_other [OF this k] show ?thesis
    by (simp add: map_of_bind_name)
qed



subsection \<open>The version lines\<close>

lemma split_version: "split_on CHR ''.'' ''1.1.0'' = [''1'', ''1'', ''0'']"
  by code_simp

lemma py_int_one: "py_int ''1'' = Inr 1"
  by code_simp

lemma py_int_zero: "py_int ''0'' = Inr 0"
  by code_simp

lemma version_parts:
  "map_int (split_on CHR ''.'' ''1.1.0'') = Inr [IntVal 1, IntVal 1, IntVal 0]"
  by (simp add: split_version py_int_one py_int_zero)

text \<open>
  When the module body completes, the three relative imports succeeded one after the
  other, and lines 69 to 119 changed the five names they assign or delete and no other.
\<close>

lemma fckprint_init_steps:
  assumes "fckprint_init pkg ns0 = Inr ns"
  shows "\<exists>ns1 ns2 ns3.
           import_from pkg ''tracer'' tracer_imports ns0 = Inr ns1 \<and>
           import_from pkg ''variables'' variables_imports ns1 = Inr ns2 \<and>
           import_from pkg ''decorators'' decorators_imports ns2 = Inr ns3 \<and>
           ns = after_version_lines ns3"
  using assms
  by (auto simp: fckprint_init_def then_do_def Let_def lookup_def map_of_bind_name
        import_module_def namedtuple_def str_split_def split_version py_int_one py_int_zero
        call_positional_def after_version_lines_def
      split: sum.splits)

lemma map_of_after_version_lines:
  "map_of (after_version_lines ns3) k =
     (if k = ''__VersionInfo'' \<or> k = ''collections'' then None
      else if k = ''__all__'' then Some (StrList all_names)
      else if k = ''__version_info__'' then
        Some (NamedTuple ''VersionInfo''
               [(''major'', IntVal 1), (''minor'', IntVal 1), (''micro'', IntVal 0)])
      else if k = ''__version__'' then Some (Str ''1.1.0'')
      else map_of ns3 k)"
  by (simp add: after_version_lines_def delete_conv map_of_bind_name)


subsection \<open>The names of the module\<close>

lemma imported_names_are_all:
  "snd ` set tracer_imports \<union> snd ` set variables_imports \<union> snd ` set decorators_imports
     = set all_names"
  unfolding tracer_imports_def variables_imports_def decorators_imports_def all_names_def
  by (simp add: insert_commute)


lemma not_public:
  "''collections'' \<notin> set all_names \<and> ''__VersionInfo'' \<notin> set all_names \<and>
   ''__all__'' \<notin> set all_names \<and> ''__version__'' \<notin> set all_names \<and>
   ''__version_info__'' \<notin> set all_names \<and> ''tracer'' \<notin> set all_names \<and>
   ''show'' \<notin> set all_names"
  by code_simp




text \<open>
  A name that the module body neither imports nor assigns, and that is not the name of
  one of the three submodules, is bound after the import exactly when it was bound
  before.
\<close>

lemma fckprint_init_foreign_name:
  assumes "fckprint_init pkg ns0 = Inr ns"
    and "k \<notin> set all_names"
    and "k \<notin> {''__VersionInfo'', ''collections'', ''__all__'', ''__version_info__'', ''__version__''}"
    and "k \<notin> {''tracer'', ''variables'', ''decorators''}"
  shows "map_of ns k = map_of ns0 k"
proof -
  from fckprint_init_steps [OF assms(1)] obtain ns1 ns2 ns3 where
    s1: "import_from pkg ''tracer'' tracer_imports ns0 = Inr ns1" and
    s2: "import_from pkg ''variables'' variables_imports ns1 = Inr ns2" and
    s3: "import_from pkg ''decorators'' decorators_imports ns2 = Inr ns3" and
    t: "ns = after_version_lines ns3"
    by blast
  from assms(3) have t': "map_of ns k = map_of ns3 k"
    unfolding t by (simp add: map_of_after_version_lines)
  from assms(2) have
    k1: "k \<notin> snd ` set tracer_imports" and k2: "k \<notin> snd ` set variables_imports" and
    k3: "k \<notin> snd ` set decorators_imports"
    using imported_names_are_all by blast+
  from assms(4) show ?thesis
    unfolding t' import_from_unwanted [OF s3 k3] import_from_unwanted [OF s2 k2]
      import_from_unwanted [OF s1 k1]
    by simp
qed

subsection \<open>The concrete package\<close>

lemma sample_import_ok:
  "case fckprint_init sample_pkg fresh_module of Inl e \<Rightarrow> False | Inr ns \<Rightarrow> True"
  by code_simp

lemma sample_import: "\<exists>ns. fckprint_init sample_pkg fresh_module = Inr ns"
  using sample_import_ok by (cases "fckprint_init sample_pkg fresh_module") auto

section \<open>Claims about the package module\<close>

text \<open>
  Claim C1. The claim says that \<^verbatim>\<open>show\<close> is available from the top-level namespace,
  as line 5 of \<^verbatim>\<open>tests/show_demo.py\<close> expects. The module body never binds that
  name: for the concrete package, whose sibling modules provide every imported name,
  \<^verbatim>\<open>from fckprint import show\<close> raises ImportError, and the name is not listed in
  \<^verbatim>\<open>__all__\<close>.
\<close>

theorem show_demo_import_fails:
  "(case fckprint_init sample_pkg fresh_module of
      Inl e \<Rightarrow> False
    | Inr ns \<Rightarrow>
        from_fckprint_import ns [''tracer'', ''variables'', ''decorators''] ''show''
          = Inl (ImportError ''show'')) \<and>
   filter (\<lambda>n. n = ''show'') all_names = []"
  by code_simp

text \<open>
  In every package in which the module body completes, the name \<^verbatim>\<open>show\<close> is
  unbound or bound to a submodule, which is not callable: the import of the demo raises
  ImportError, or the first call of \<^verbatim>\<open>show\<close> raises TypeError.
\<close>

lemma show_never_callable:
  assumes "fckprint_init pkg ns0 = Inr ns" and "map_of ns0 ''show'' = None"
  shows "from_fckprint_import ns files ''show'' = Inl (ImportError ''show'') \<or>
         from_fckprint_import ns files ''show'' = Inr (submodule ''show'') \<and>
         call_positional (submodule ''show'') args
           = Inl (TypeError ''module object is not callable'')"
proof -
  have "''show'' \<notin> set all_names"
    using not_public by simp
  from fckprint_init_foreign_name [OF assms(1) this] assms(2)
  have "map_of ns ''show'' = None"
    by simp
  then show ?thesis
    by (simp add: from_fckprint_import_def call_positional_def submodule_def)
qed







text \<open>
  Claim C9. After the import \<^verbatim>\<open>__version__\<close> is the string 1.1.0 and
  \<^verbatim>\<open>__version_info__\<close> is the VersionInfo tuple with major 1, minor 1 and micro 0,
  which are the integers obtained by splitting the version string at the dots.
\<close>

theorem version_info_matches_version:
  assumes "fckprint_init pkg ns0 = Inr ns"
  shows "map_of ns ''__version__'' = Some (Str ''1.1.0'') \<and>
         map_of ns ''__version_info__'' =
           Some (NamedTuple ''VersionInfo''
                  [(''major'', IntVal 1), (''minor'', IntVal 1), (''micro'', IntVal 0)]) \<and>
         map_int (split_on CHR ''.'' ''1.1.0'') = Inr [IntVal 1, IntVal 1, IntVal 0]"
proof -
  from fckprint_init_steps [OF assms] obtain ns3 where "ns = after_version_lines ns3"
    by blast
  then have "map_of ns ''__version__'' = Some (Str ''1.1.0'')"
    and "map_of ns ''__version_info__'' =
           Some (NamedTuple ''VersionInfo''
                  [(''major'', IntVal 1), (''minor'', IntVal 1), (''micro'', IntVal 0)])"
    by (simp_all add: map_of_after_version_lines)
  then show ?thesis
    using version_parts by blast
qed

theorem version_info_matches_version_witness:
  "\<exists>ns. fckprint_init sample_pkg fresh_module = Inr ns \<and>
        map_of ns ''__version__'' = Some (Str ''1.1.0'') \<and>
        map_of ns ''__version_info__'' =
          Some (NamedTuple ''VersionInfo''
                 [(''major'', IntVal 1), (''minor'', IntVal 1), (''micro'', IntVal 0)])"
proof -
  from sample_import obtain ns where h: "fckprint_init sample_pkg fresh_module = Inr ns" ..
  from version_info_matches_version [OF h] h show ?thesis by blast
qed




section \<open>Properties of the tracing engine\<close>

subsection \<open>The Formatter/Sink never raises\<close>

lemma emit_returns: "\<exists>st'. emit fs ev st = Inr st'"
  by (cases "write_event fs ev st") (simp_all add: emit_def)

lemma emit_event_returns:
  "\<exists>s. emit_event fs ev eng = Inr (eng\<lparr>sink := s, emitted := emitted eng @ [ev]\<rparr>)"
proof -
  from emit_returns obtain s where "emit fs ev (sink eng) = Inr s"
    by blast
  then have "emit_event fs ev eng = Inr (eng\<lparr>sink := s, emitted := emitted eng @ [ev]\<rparr>)"
    by (simp add: emit_event_def then_do_def)
  then show ?thesis
    by blast
qed

subsection \<open>Bookkeeping\<close>

lemma upt_append_upt: "a \<le> b \<Longrightarrow> b \<le> c \<Longrightarrow> [a..<b] @ [b..<c] = [a..<c]"
  using upt_add_eq_append [of a b "c - b"] by simp

lemma balanced_refl: "balanced eng eng"
  by (simp add: balanced_def)

lemma balanced_trans:
  assumes "balanced e1 e2" and "balanced e2 e3"
  shows "balanced e1 e3"
proof -
  from assms obtain p1 p2 v1 v2 where
    n: "next_call_id e1 \<le> next_call_id e2" "next_call_id e2 \<le> next_call_id e3" and
    pu: "pushed e2 = pushed e1 @ [next_call_id e1 ..< next_call_id e2]"
      "pushed e3 = pushed e2 @ [next_call_id e2 ..< next_call_id e3]" and
    po: "popped e2 = popped e1 @ p1" "mset p1 = mset [next_call_id e1 ..< next_call_id e2]"
      "popped e3 = popped e2 @ p2" "mset p2 = mset [next_call_id e2 ..< next_call_id e3]" and
    ev: "emitted e2 = emitted e1 @ v1" "emitted e3 = emitted e2 @ v2"
    unfolding balanced_def by blast
  have u: "[next_call_id e1 ..< next_call_id e2] @ [next_call_id e2 ..< next_call_id e3]
             = [next_call_id e1 ..< next_call_id e3]"
    using n by (rule upt_append_upt)
  have "pushed e3 = pushed e1 @ [next_call_id e1 ..< next_call_id e3]"
    unfolding pu u [symmetric] by simp
  moreover have "popped e3 = popped e1 @ (p1 @ p2)"
    unfolding po by simp
  moreover have "mset (p1 @ p2) = mset [next_call_id e1 ..< next_call_id e3]"
    unfolding u [symmetric] using po(2,4) by simp
  moreover have "emitted e3 = emitted e1 @ (v1 @ v2)"
    unfolding ev by simp
  moreover from n have "next_call_id e1 \<le> next_call_id e3"
    by simp
  ultimately show ?thesis
    unfolding balanced_def by blast
qed

lemma balanced_emitted:
  "balanced eng (eng\<lparr>sink := s, emitted := emitted eng @ [ev]\<rparr>)"
  by (simp add: balanced_def)

lemma balanced_record_snapshot: "balanced eng (record_snapshot ctx s eng)"
  by (simp add: balanced_def record_snapshot_def split: list.splits)

lemma top_kept_refl: "top_kept ctx eng eng"
  by (simp add: top_kept_def)

lemma top_kept_trans: "top_kept ctx e1 e2 \<Longrightarrow> top_kept ctx e2 e3 \<Longrightarrow> top_kept ctx e1 e3"
  by (simp add: top_kept_def)

lemma top_kept_emitted:
  "top_kept ctx eng (eng\<lparr>sink := s, emitted := emitted eng @ [ev]\<rparr>)"
  by (simp add: top_kept_def)

lemma top_kept_record_snapshot: "top_kept ctx eng (record_snapshot ctx s eng)"
  by (simp add: top_kept_def record_snapshot_def split: list.splits)

lemma top_kept_same: "stacks e2 = stacks e1 \<Longrightarrow> top_kept ctx e1 e2"
  by (simp add: top_kept_def)

subsection \<open>The engine always returns, with the outcome of the callable\<close>

text \<open>
  One call: the callable's own outcome comes back, the stacks are as before, at least
  one call id was handed out, and pushes and pops balance. A sequence of steps: the same,
  but the top entry of the context may carry a new snapshot.
\<close>

lemma run_call_invariant:
    "\<exists>eng'. run_call fs cfg render ctx l params steps out eng
              = Inr (plain_call steps out, eng') \<and>
            stacks eng' = stacks eng \<and> next_call_id eng < next_call_id eng' \<and>
            balanced eng eng'"
  and run_steps_invariant:
    "\<exists>eng'. run_steps fs cfg render ctx cid d steps eng = Inr (plain_steps steps, eng') \<and>
            top_kept ctx eng eng' \<and> balanced eng eng'"
proof (induction fs cfg render ctx l params steps out eng
         and fs cfg render ctx cid d steps eng rule: run_call_run_steps.induct)
  case (1 fs cfg render ctx l params steps out eng)
  define cid where "cid = next_call_id eng"
  define d where "d = Suc (length (stacks eng ctx))"
  define st where "st = stacks eng ctx"
  define e0 where "e0 = \<lparr>entry_call_id = cid, entry_depth = d, entry_snapshot = None\<rparr>"
  define eng1 where
    "eng1 = eng\<lparr>stacks := (stacks eng)(ctx := e0 # st), next_call_id := Suc cid,
               pushed := pushed eng @ [cid]\<rparr>"
  have en: "enter ctx eng = (cid, d, eng1)"
    by (simp add: enter_def Let_def cid_def d_def st_def e0_def eng1_def)
  from emit_event_returns obtain s2 where
    e2: "emit_event fs (call_event cfg cid d l params) eng1
           = Inr (eng1\<lparr>sink := s2, emitted := emitted eng1 @ [call_event cfg cid d l params]\<rparr>)"
    by blast
  define eng2 where
    "eng2 = eng1\<lparr>sink := s2, emitted := emitted eng1 @ [call_event cfg cid d l params]\<rparr>"
  define eng2' where "eng2' = record_snapshot ctx params eng2"
  have "\<exists>eng'. run_steps fs cfg render ctx cid d steps (record_snapshot ctx params eng2)
                 = Inr (plain_steps steps, eng') \<and>
               top_kept ctx (record_snapshot ctx params eng2) eng' \<and>
               balanced (record_snapshot ctx params eng2) eng'"
    by (rule "1.IH" [of cid "(d, eng1)" d eng1 eng2]) (simp_all add: en)
  then obtain eng3 where
    st3: "run_steps fs cfg render ctx cid d steps eng2' = Inr (plain_steps steps, eng3)" and
    tk: "top_kept ctx eng2' eng3" and bal: "balanced eng2' eng3"
    unfolding eng2'_def by blast
  define result where "result = plain_call steps out"
  have res: "(case plain_steps steps of Some e \<Rightarrow> Inl e | None \<Rightarrow> out) = result"
    by (simp add: result_def)
  have "\<exists>eng4. (case result of
                  Inl e \<Rightarrow> emit_event fs (exception_event cid d l e) eng3
                | Inr v \<Rightarrow> Inr eng3) = Inr eng4 \<and>
               top_kept ctx eng3 eng4 \<and> balanced eng3 eng4 \<and>
               next_call_id eng4 = next_call_id eng3"
  proof (cases result)
    case (Inl e)
    from emit_event_returns obtain s where
      "emit_event fs (exception_event cid d l e) eng3
         = Inr (eng3\<lparr>sink := s, emitted := emitted eng3 @ [exception_event cid d l e]\<rparr>)"
      by blast
    with Inl show ?thesis
      using top_kept_emitted balanced_emitted by fastforce
  next
    case (Inr v)
    then show ?thesis
      by (simp add: top_kept_refl balanced_refl)
  qed
  then obtain eng4 where
    e4: "(case result of
            Inl e \<Rightarrow> emit_event fs (exception_event cid d l e) eng3
          | Inr v \<Rightarrow> Inr eng3) = Inr eng4" and
    tk4: "top_kept ctx eng3 eng4" and bal4: "balanced eng3 eng4" and
    n4: "next_call_id eng4 = next_call_id eng3"
    by blast
  define ret where
    "ret = return_event cfg render cid d l (current_snapshot ctx eng4) result"
  from emit_event_returns obtain s5 where
    e5: "emit_event fs ret eng4 = Inr (eng4\<lparr>sink := s5, emitted := emitted eng4 @ [ret]\<rparr>)"
    by blast
  define eng5 where "eng5 = eng4\<lparr>sink := s5, emitted := emitted eng4 @ [ret]\<rparr>"
  have run: "run_call fs cfg render ctx l params steps out eng
               = Inr (result, exit_call ctx eng5)"
    using en e2 st3 e4 e5
    by (simp add: then_do_def res eng2_def [symmetric] eng2'_def [symmetric]
          ret_def [symmetric] eng5_def [symmetric])
  have tk25: "top_kept ctx eng2' eng5"
    using tk tk4 top_kept_emitted [where ctx = ctx and eng = eng4 and s = s5 and ev = ret]
    unfolding eng5_def by (blast intro: top_kept_trans)
  have bal25: "balanced eng2' eng5"
    using bal bal4 balanced_emitted [where eng = eng4 and s = s5 and ev = ret]
    unfolding eng5_def by (blast intro: balanced_trans)
  have s2': "stacks eng2' = (stacks eng)(ctx := e0\<lparr>entry_snapshot := Some params\<rparr> # st)"
    by (simp add: eng2'_def eng2_def eng1_def record_snapshot_def)
  have f2': "next_call_id eng2' = Suc cid" "pushed eng2' = pushed eng @ [cid]"
    "popped eng2' = popped eng" "emitted eng2' = emitted eng @ [call_event cfg cid d l params]"
    by (simp_all add: eng2'_def eng2_def eng1_def record_snapshot_def)
  from tk25 have ids: "map entry_call_id (stacks eng5 ctx) = cid # map entry_call_id st"
    and tl5: "tl (stacks eng5 ctx) = st"
    and oth: "\<And>c. c \<noteq> ctx \<Longrightarrow> stacks eng5 c = stacks eng c"
    unfolding top_kept_def s2' by (simp_all add: e0_def)
  from ids tl5 obtain e' where top: "stacks eng5 ctx = e' # st" and id': "entry_call_id e' = cid"
    by (cases "stacks eng5 ctx") auto
  define eng6 where "eng6 = exit_call ctx eng5"
  have x: "eng6 = eng5\<lparr>stacks := (stacks eng5)(ctx := st), popped := popped eng5 @ [cid]\<rparr>"
    by (simp add: eng6_def exit_call_def top id')
  have "stacks eng6 c = stacks eng c" for c
    using oth [of c] by (cases "c = ctx") (simp_all add: x st_def)
  then have same: "stacks eng6 = stacks eng"
    by (rule ext)
  from bal25 obtain pops evs where
    n5: "Suc cid \<le> next_call_id eng5" and
    pu5: "pushed eng5 = (pushed eng @ [cid]) @ [Suc cid ..< next_call_id eng5]" and
    po5: "popped eng5 = popped eng @ pops" "mset pops = mset [Suc cid ..< next_call_id eng5]" and
    ev5: "emitted eng5 = (emitted eng @ [call_event cfg cid d l params]) @ evs"
    unfolding balanced_def f2' by blast
  from n5 have u: "[cid ..< next_call_id eng5] = cid # [Suc cid ..< next_call_id eng5]"
    by (simp add: upt_conv_Cons)
  have "balanced eng eng6"
    unfolding balanced_def
  proof (intro conjI exI)
    show "next_call_id eng \<le> next_call_id eng6"
      using n5 by (simp add: x cid_def)
    show "pushed eng6 = pushed eng @ [next_call_id eng ..< next_call_id eng6]"
      using pu5 u by (simp add: x cid_def)
    show "popped eng6 = popped eng @ (pops @ [cid])"
      using po5(1) by (simp add: x)
    show "mset (pops @ [cid]) = mset [next_call_id eng ..< next_call_id eng6]"
      using po5(2) u by (simp add: x cid_def)
    show "emitted eng6 = emitted eng @ (call_event cfg cid d l params # evs)"
      using ev5 by (simp add: x)
  qed
  moreover have "next_call_id eng < next_call_id eng6"
    using n5 by (simp add: x cid_def)
  ultimately show ?case
    using run same unfolding result_def eng6_def by blast
next
  case (2 fs cfg render ctx cid d eng)
  show ?case
    by (simp add: top_kept_refl balanced_refl)
next
  case (3 fs cfg render ctx cid d l s rest eng)
  show ?case
  proof (cases "d \<le> max_depth cfg")
    case True
    define ev where "ev = line_event cfg cid d l (current_snapshot ctx eng) s"
    from emit_event_returns obtain sk where
      e1: "emit_event fs ev eng = Inr (eng\<lparr>sink := sk, emitted := emitted eng @ [ev]\<rparr>)"
      by blast
    define eng1 where "eng1 = eng\<lparr>sink := sk, emitted := emitted eng @ [ev]\<rparr>"
    from "3.IH" (1) [OF True, of eng1] obtain eng' where
      r: "run_steps fs cfg render ctx cid d rest (record_snapshot ctx s eng1)
            = Inr (plain_steps rest, eng')" and
      tk: "top_kept ctx (record_snapshot ctx s eng1) eng'" and
      bal: "balanced (record_snapshot ctx s eng1) eng'"
      by blast
    have "top_kept ctx eng eng'"
      using top_kept_emitted [where ctx = ctx and eng = eng and s = sk and ev = ev] top_kept_record_snapshot [where ctx = ctx and eng = eng1 and s = s] tk
      unfolding eng1_def by (blast intro: top_kept_trans)
    moreover have "balanced eng eng'"
      using balanced_emitted [where eng = eng and s = sk and ev = ev] balanced_record_snapshot [where ctx = ctx and eng = eng1 and s = s] bal
      unfolding eng1_def by (blast intro: balanced_trans)
    moreover have "run_steps fs cfg render ctx cid d (Stmt l s # rest) eng
                     = Inr (plain_steps (Stmt l s # rest), eng')"
      using True e1 r by (simp add: then_do_def ev_def [symmetric] eng1_def [symmetric])
    ultimately show ?thesis
      by blast
  next
    case False
    from "3.IH" (2) [OF False] obtain eng' where
      "run_steps fs cfg render ctx cid d rest eng = Inr (plain_steps rest, eng')"
      "top_kept ctx eng eng'" "balanced eng eng'"
      by blast
    with False show ?thesis
      by simp
  qed
next
  case (4 fs cfg render ctx cid d handled l p body out rest eng)
  from "4.IH" (1) obtain eng1 where
    c: "run_call fs cfg render ctx l p body out eng = Inr (plain_call body out, eng1)" and
    same: "stacks eng1 = stacks eng" and bal1: "balanced eng eng1"
    by blast
  have tk1: "top_kept ctx eng eng1"
    using same by (rule top_kept_same)
  show ?case
  proof (cases "plain_call body out")
    case (Inl e)
    show ?thesis
    proof (cases handled)
      case True
      from "4.IH" (2) [OF Inl True, of eng1] obtain eng' where
        r: "run_steps fs cfg render ctx cid d rest eng1 = Inr (plain_steps rest, eng')" and
        tk: "top_kept ctx eng1 eng'" and bal: "balanced eng1 eng'"
        by blast
      have "run_steps fs cfg render ctx cid d (Invoke handled l p body out # rest) eng
              = Inr (plain_steps (Invoke handled l p body out # rest), eng')"
        using c Inl True r by (simp add: then_do_def del: plain_call.simps run_call.simps)
      with top_kept_trans [OF tk1 tk] balanced_trans [OF bal1 bal] show ?thesis
        by blast
    next
      case False
      have "run_steps fs cfg render ctx cid d (Invoke handled l p body out # rest) eng
              = Inr (plain_steps (Invoke handled l p body out # rest), eng1)"
        using c Inl False by (simp add: then_do_def del: plain_call.simps run_call.simps)
      with tk1 bal1 show ?thesis
        by blast
    qed
  next
    case (Inr v)
    from "4.IH" (3) [OF Inr, of eng1] obtain eng' where
      r: "run_steps fs cfg render ctx cid d rest eng1 = Inr (plain_steps rest, eng')" and
      tk: "top_kept ctx eng1 eng'" and bal: "balanced eng1 eng'"
      by blast
    have "run_steps fs cfg render ctx cid d (Invoke handled l p body out # rest) eng
            = Inr (plain_steps (Invoke handled l p body out # rest), eng')"
      using c Inr r by (simp add: then_do_def del: plain_call.simps run_call.simps)
    with top_kept_trans [OF tk1 tk] balanced_trans [OF bal1 bal] show ?thesis
      by blast
  qed
qed

subsection \<open>The events of one call\<close>



section \<open>Claims about the tracing engine\<close>




text \<open>
  Claim C8. Every traced call returns to its caller with the stacks of all contexts as
  they were when it was entered. The calls entered in between, the call itself and the
  calls nested in it, are those with the call ids from \<open>next_call_id eng\<close> up; each
  of these ids was pushed once, and the ids popped in between are the same ids, each
  once. This holds whether the callable returns or raises, at any nesting, and whether or
  not the Formatter/Sink fails.
\<close>

theorem call_stack_entry_popped_once:
  "\<exists>eng' pops.
     run_call fs cfg render ctx l params steps out eng = Inr (plain_call steps out, eng') \<and>
     stacks eng' = stacks eng \<and>
     next_call_id eng < next_call_id eng' \<and>
     pushed eng' = pushed eng @ [next_call_id eng ..< next_call_id eng'] \<and>
     popped eng' = popped eng @ pops \<and>
     mset pops = mset [next_call_id eng ..< next_call_id eng']"
  using run_call_invariant [of fs cfg render ctx l params steps out eng]
  unfolding balanced_def by blast

lemma nested_raises:
  "plain_call nested_steps (Inr 0) = Inl (Exn ''ZeroDivisionError'' ''division by zero'')"
  by (simp add: nested_steps_def g_zero_steps_def g_def)

lemma nested_call_ids:
  "case run_call failing_formatter sample_config render_none 0 10 [] nested_steps (Inr 0)
          start_engine
   of Inl err \<Rightarrow> False
    | Inr (r, eng') \<Rightarrow> next_call_id eng' = 2 \<and> stacks eng' 0 = []"
  by code_simp

theorem call_stack_entry_popped_once_witness:
  "\<exists>eng'.
     run_call failing_formatter sample_config render_none 0 10 [] nested_steps (Inr 0)
         start_engine
       = Inr (Inl (Exn ''ZeroDivisionError'' ''division by zero''), eng') \<and>
     stacks eng' = stacks start_engine \<and>
     pushed eng' = [0, 1] \<and>
     mset (popped eng') = mset [0, 1]"
proof -
  from call_stack_entry_popped_once
    [of failing_formatter sample_config render_none 0 10 "[]" nested_steps "Inr 0" start_engine]
  obtain eng' pops where
    r: "run_call failing_formatter sample_config render_none 0 10 [] nested_steps (Inr 0)
          start_engine
        = Inr (plain_call nested_steps (Inr 0), eng')" and
    s: "stacks eng' = stacks start_engine" and
    pu: "pushed eng' = pushed start_engine @ [next_call_id start_engine ..< next_call_id eng']" and
    po: "popped eng' = popped start_engine @ pops"
      "mset pops = mset [next_call_id start_engine ..< next_call_id eng']"
    by blast
  from nested_call_ids r have n: "next_call_id eng' = 2"
    by simp
  have u: "[0 ..< 2] = [0, Suc 0]"
    by (simp add: upt_rec)
  from pu po n have "pushed eng' = [0, 1]" and "mset (popped eng') = mset [0, 1]"
    by (simp_all add: start_engine_def new_engine_def u)
  with r s show ?thesis
    unfolding nested_raises by blast
qed

end
